theory Spec2Isabelle
  imports Main
begin

section \<open>JavaScript values\<close>

text \<open>
  The server (\<^verbatim>\<open>github-mcp.ts\<close>) and the launcher (\<^verbatim>\<open>run-mcp.js\<close>) handle
  JSON documents, strings and numbers. A \<open>string\<close> of the model is the UTF-8 encoding of
  the program's string. A JavaScript number is a double; the finite values of the model are
  the integers (pull request numbers, ids, HTTP statuses), rendered as the engine renders
  an integer below \<open>10^21\<close>. The value \<^verbatim>\<open>undefined\<close> is \<open>None\<close> of \<open>json option\<close>.
\<close>

datatype number = NaN | PosInfinity | NegInfinity | Finite int

datatype json =
    JNull
  | JBool bool
  | JNum number
  | JStr string
  | JArr "json list"
  | JObj "(string \<times> json) list"

text \<open>What a \<^verbatim>\<open>throw\<close> carries: an instance of \<^verbatim>\<open>Error\<close> with its message, or any
  other value, kept as its \<^verbatim>\<open>String(...)\<close> conversion.\<close>

datatype thrown = ErrorObject string | OtherValue string

text \<open>Built-ins whose result depends on the engine, the locale or the time zone.\<close>

record platform =
  type_error_message :: "string \<Rightarrow> string"
    \<comment> \<open>message of the TypeError raised when the named expression cannot be evaluated\<close>
  date_getTime :: "json option \<Rightarrow> int option"
    \<comment> \<open>\<^verbatim>\<open>new Date(v).getTime()\<close> in milliseconds; \<open>None\<close> is NaN (an invalid date)\<close>
  date_toLocaleString :: "json option \<Rightarrow> string"
    \<comment> \<open>\<^verbatim>\<open>new Date(v).toLocaleString()\<close>\<close>
  toUpperCase :: "string \<Rightarrow> string"
    \<comment> \<open>\<^verbatim>\<open>String.prototype.toUpperCase\<close>\<close>

subsection \<open>Conversion to text\<close>

fun decimal :: "nat \<Rightarrow> string" where
  "decimal n =
     (if n < 10 then [''0123456789'' ! n]
      else decimal (n div 10) @ [''0123456789'' ! (n mod 10)])"

declare decimal.simps [simp del]

fun number_toString :: "number \<Rightarrow> string" where
  "number_toString NaN = ''NaN''"
| "number_toString PosInfinity = ''Infinity''"
| "number_toString NegInfinity = ''-Infinity''"
| "number_toString (Finite i) =
     (if i < 0 then ''-'' @ decimal (nat (- i)) else decimal (nat i))"

fun join :: "string \<Rightarrow> string list \<Rightarrow> string" where
  "join sep [] = []"
| "join sep [x] = x"
| "join sep (x # y # ys) = x @ sep @ join sep (y # ys)"

text \<open>\<^verbatim>\<open>${v}\<close> in a template literal: ToString. An array joins its elements with a
  comma, \<^verbatim>\<open>null\<close> elements as the empty string.\<close>

fun to_string :: "json \<Rightarrow> string" where
  "to_string JNull = ''null''"
| "to_string (JBool b) = (if b then ''true'' else ''false'')"
| "to_string (JNum n) = number_toString n"
| "to_string (JStr s) = s"
| "to_string (JArr xs) = join '','' (map (\<lambda>x. if x = JNull then [] else to_string x) xs)"
| "to_string (JObj kvs) = ''[object Object]''"

definition template :: "json option \<Rightarrow> string" where
  "template v = (case v of None \<Rightarrow> ''undefined'' | Some x \<Rightarrow> to_string x)"

subsection \<open>Truthiness and property access\<close>

fun truthy :: "json option \<Rightarrow> bool" where
  "truthy None = False"
| "truthy (Some JNull) = False"
| "truthy (Some (JBool b)) = b"
| "truthy (Some (JNum n)) = (n \<noteq> NaN \<and> n \<noteq> Finite 0)"
| "truthy (Some (JStr s)) = (s \<noteq> [])"
| "truthy (Some (JArr xs)) = True"
| "truthy (Some (JObj kvs)) = True"

text \<open>\<^verbatim>\<open>a || b\<close>.\<close>

definition or_else :: "json option \<Rightarrow> json option \<Rightarrow> json option" where
  "or_else a b = (if truthy a then a else b)"

text \<open>The property \<open>k\<close> of a value that is neither \<^verbatim>\<open>null\<close> nor \<^verbatim>\<open>undefined\<close>.
  The names this program reads (\<^verbatim>\<open>created_at\<close>, \<^verbatim>\<open>user\<close>, \<^verbatim>\<open>login\<close>, ...) are
  not inherited by any value, so only an object can have them. A parsed object lists each
  of its keys once, in the order in which the engine enumerates them.\<close>

fun member :: "json \<Rightarrow> string \<Rightarrow> json option" where
  "member (JObj kvs) k = map_of kvs k"
| "member v k = None"

text \<open>\<^verbatim>\<open>v.k\<close>: a TypeError on \<^verbatim>\<open>null\<close> and \<^verbatim>\<open>undefined\<close>; \<open>expr\<close> names the
  expression for the engine's message.\<close>

definition read :: "platform \<Rightarrow> string \<Rightarrow> json option \<Rightarrow> string \<Rightarrow> thrown + json option" where
  "read P expr v k =
     (case v of
        None \<Rightarrow> Inl (ErrorObject (type_error_message P expr))
      | Some JNull \<Rightarrow> Inl (ErrorObject (type_error_message P expr))
      | Some x \<Rightarrow> Inr (member x k))"

text \<open>\<^verbatim>\<open>v?.k\<close>.\<close>

definition read_opt :: "json option \<Rightarrow> string \<Rightarrow> json option" where
  "read_opt v k = (case v of None \<Rightarrow> None | Some JNull \<Rightarrow> None | Some x \<Rightarrow> member x k)"

subsection \<open>JSON.stringify\<close>

definition hex_digit :: "nat \<Rightarrow> char" where
  "hex_digit n = ''0123456789abcdef'' ! n"

definition quote_char :: "char \<Rightarrow> string" where
  "quote_char c =
     (if c = CHR 0x08 then [CHR 0x5C, CHR ''b'']
      else if c = CHR 0x09 then [CHR 0x5C, CHR ''t'']
      else if c = CHR 0x0A then [CHR 0x5C, CHR ''n'']
      else if c = CHR 0x0C then [CHR 0x5C, CHR ''f'']
      else if c = CHR 0x0D then [CHR 0x5C, CHR ''r'']
      else if c = CHR 0x22 then [CHR 0x5C, CHR 0x22]
      else if c = CHR 0x5C then [CHR 0x5C, CHR 0x5C]
      else if (of_char c :: nat) < 32
        then [CHR 0x5C, CHR ''u'', CHR ''0'', CHR ''0'',
              hex_digit (of_char c div 16), hex_digit (of_char c mod 16)]
      else [c])"

definition quote :: "string \<Rightarrow> string" where
  "quote s = [CHR 0x22] @ concat (map quote_char s) @ [CHR 0x22]"

text \<open>\<open>ser gap indent v\<close> is SerializeJSONProperty with the given gap (empty for
  \<^verbatim>\<open>JSON.stringify(v)\<close>, two spaces for \<^verbatim>\<open>JSON.stringify(v, null, 2)\<close>) at the
  current indentation.\<close>

fun ser :: "string \<Rightarrow> string \<Rightarrow> json \<Rightarrow> string" where
  "ser gap ind JNull = ''null''"
| "ser gap ind (JBool b) = (if b then ''true'' else ''false'')"
| "ser gap ind (JNum n) = (case n of Finite i \<Rightarrow> number_toString n | _ \<Rightarrow> ''null'')"
| "ser gap ind (JStr s) = quote s"
| "ser gap ind (JArr xs) =
     (if xs = [] then ''[]''
      else if gap = [] then ''['' @ join '','' (map (ser gap (ind @ gap)) xs) @ '']''
      else ''['' @ [CHR 0x0A] @ (ind @ gap)
           @ join ('','' @ [CHR 0x0A] @ (ind @ gap)) (map (ser gap (ind @ gap)) xs)
           @ [CHR 0x0A] @ ind @ '']'')"
| "ser gap ind (JObj kvs) =
     (if kvs = [] then ''{}''
      else if gap = []
        then ''{'' @ join '','' (map (\<lambda>(k, v). quote k @ '':'' @ ser gap (ind @ gap) v) kvs) @ ''}''
      else ''{'' @ [CHR 0x0A] @ (ind @ gap)
           @ join ('','' @ [CHR 0x0A] @ (ind @ gap))
               (map (\<lambda>(k, v). quote k @ '': '' @ ser gap (ind @ gap) v) kvs)
           @ [CHR 0x0A] @ ind @ ''}'')"

definition JSON_stringify :: "json \<Rightarrow> string" where
  "JSON_stringify v = ser [] [] v"

definition JSON_stringify_2 :: "json \<Rightarrow> string" where
  "JSON_stringify_2 v = ser ''  '' [] v"

text \<open>An object literal whose property values may be \<^verbatim>\<open>undefined\<close>. The program only
  ever serializes such a literal, and JSON.stringify leaves out a property whose value is
  \<^verbatim>\<open>undefined\<close>.\<close>

definition object :: "(string \<times> json option) list \<Rightarrow> json" where
  "object props = JObj (concat (map (\<lambda>(k, v). case v of None \<Rightarrow> [] | Some x \<Rightarrow> [(k, x)]) props))"

section \<open>The upstream REST API\<close>

text \<open>
  \<^verbatim>\<open>fetch\<close> is the only effect of the server. A request is what \<^verbatim>\<open>fetch\<close> is
  given; its outcome is a rejection (a network failure) or a response, whose
  \<open>json_body\<close> is what \<^verbatim>\<open>response.json()\<close> yields: the parsed document, or the
  error it rejects with. The upstream is any function from the exchanges so far and the
  request to an outcome, and the state threaded through the program is the list of
  exchanges made.
\<close>

datatype http_method = GET | POST

record request =
  request_method :: http_method
  url :: string
  headers :: "(string \<times> string) list"
  payload :: "string option"  \<comment> \<open>the \<^verbatim>\<open>body\<close> of the request\<close>

record response =
  status :: nat
  statusText :: string
  json_body :: "thrown + json"

datatype outcome = Rejected thrown | Resolved response

type_synonym exchange = "request \<times> outcome"

type_synonym upstream = "exchange list \<Rightarrow> request \<Rightarrow> outcome"

definition ok :: "response \<Rightarrow> bool" where
  "ok r = (200 \<le> status r \<and> status r \<le> 299)"

definition fetch :: "upstream \<Rightarrow> request \<Rightarrow> exchange list \<Rightarrow> outcome \<times> exchange list" where
  "fetch up req log = (up log req, log @ [(req, up log req)])"

definition GITHUB_URL :: string where
  "GITHUB_URL = ''https://api.github.com''"

text \<open>\<^verbatim>\<open>if (token) headers["Authorization"] = `token ${token}`\<close>: nothing for a token
  that is \<^verbatim>\<open>undefined\<close> or empty.\<close>

definition authorization :: "string option \<Rightarrow> (string \<times> string) list" where
  "authorization token =
     (if truthy (map_option JStr token)
      then [(''Authorization'', ''token '' @ template (map_option JStr token))]
      else [])"

definition getPullRequests_request :: "string \<Rightarrow> string \<Rightarrow> string option \<Rightarrow> request" where
  "getPullRequests_request owner repo token =
     \<lparr>request_method = GET,
      url = GITHUB_URL @ ''/repos/'' @ owner @ ''/'' @ repo @ ''/pulls'',
      headers = [(''Accept'', ''application/vnd.github.v3+json''),
                 (''User-Agent'', ''GitHub-API-Client'')] @ authorization token,
      payload = None\<rparr>"

definition getPullRequests ::
  "upstream \<Rightarrow> string \<Rightarrow> string \<Rightarrow> string option \<Rightarrow> exchange list
     \<Rightarrow> (thrown + json) \<times> exchange list" where
  "getPullRequests up owner repo token log =
     (case fetch up (getPullRequests_request owner repo token) log of
        (Rejected e, log') \<Rightarrow> (Inl e, log')
      | (Resolved r, log') \<Rightarrow>
          if \<not> ok r
          then (Inl (ErrorObject (''GitHub API error: '' @ decimal (status r) @ '' ''
                                   @ statusText r)), log')
          else (json_body r, log'))"

definition getPullRequest_request :: "string \<Rightarrow> string \<Rightarrow> number \<Rightarrow> string option \<Rightarrow> request" where
  "getPullRequest_request owner repo pullNumber token =
     \<lparr>request_method = GET,
      url = GITHUB_URL @ ''/repos/'' @ owner @ ''/'' @ repo @ ''/pulls/''
            @ number_toString pullNumber,
      headers = [(''Accept'', ''application/vnd.github.v3+json''),
                 (''User-Agent'', ''GitHub-API-Client'')] @ authorization token,
      payload = None\<rparr>"

definition getPullRequest ::
  "upstream \<Rightarrow> string \<Rightarrow> string \<Rightarrow> number \<Rightarrow> string option \<Rightarrow> exchange list
     \<Rightarrow> (thrown + json) \<times> exchange list" where
  "getPullRequest up owner repo pullNumber token log =
     (case fetch up (getPullRequest_request owner repo pullNumber token) log of
        (Rejected e, log') \<Rightarrow> (Inl e, log')
      | (Resolved r, log') \<Rightarrow>
          if \<not> ok r
          then (Inl (ErrorObject (''GitHub API error: '' @ decimal (status r) @ '' ''
                                   @ statusText r)), log')
          else (json_body r, log'))"

definition postCommentOnPR_request ::
  "string \<Rightarrow> string \<Rightarrow> number \<Rightarrow> string \<Rightarrow> string option \<Rightarrow> request" where
  "postCommentOnPR_request owner repo pullNumber body token =
     \<lparr>request_method = POST,
      url = GITHUB_URL @ ''/repos/'' @ owner @ ''/'' @ repo @ ''/issues/''
            @ number_toString pullNumber @ ''/comments'',
      headers = [(''Accept'', ''application/vnd.github.v3+json''),
                 (''User-Agent'', ''GitHub-API-Client''),
                 (''Content-Type'', ''application/json'')] @ authorization token,
      payload = Some (JSON_stringify (JObj [(''body'', JStr body)]))\<rparr>"

definition postCommentOnPR ::
  "upstream \<Rightarrow> string \<Rightarrow> string \<Rightarrow> number \<Rightarrow> string \<Rightarrow> string option \<Rightarrow> exchange list
     \<Rightarrow> (thrown + json) \<times> exchange list" where
  "postCommentOnPR up owner repo pullNumber body token log =
     (case fetch up (postCommentOnPR_request owner repo pullNumber body token) log of
        (Rejected e, log') \<Rightarrow> (Inl e, log')
      | (Resolved r, log') \<Rightarrow>
          if \<not> ok r
          then (Inl (ErrorObject (''Failed to post comment: '' @ decimal (status r) @ '' ''
                                   @ statusText r)), log')
          else (json_body r, log'))"

section \<open>The tool handlers\<close>

text \<open>The arguments of a tool call, as the input schemas declare them; a tool ignores
  the arguments its schema does not name. The prompt that \<^verbatim>\<open>main\<close> registers and the
  transport it connects are used by no handler and are left out.\<close>

record params =
  owner :: string
  repo :: string
  pull_number :: number
  body :: string
  token :: "string option"

text \<open>\<^verbatim>\<open>{type: "text", text: t}\<close>.\<close>

datatype content_item = TextContent string

text \<open>An Invocation Result; \<open>isError\<close> is false where the handler leaves the
  property out.\<close>

record invocation_result =
  content :: "content_item list"
  isError :: bool

text \<open>The \<^verbatim>\<open>catch\<close> block that all four handlers share.\<close>

definition error_result :: "thrown \<Rightarrow> invocation_result" where
  "error_result error =
     \<lparr>content = [TextContent (''Error: '' @ (case error of ErrorObject message \<Rightarrow> message
                                              | OtherValue s \<Rightarrow> s))],
      isError = True\<rparr>"

definition text_result :: "string \<Rightarrow> invocation_result" where
  "text_result t = \<lparr>content = [TextContent t], isError = False\<rparr>"

definition get_prs_of_repo ::
  "upstream \<Rightarrow> params \<Rightarrow> exchange list \<Rightarrow> invocation_result \<times> exchange list" where
  "get_prs_of_repo up p log =
     (case getPullRequests up (owner p) (repo p) (token p) log of
        (Inr prs, log') \<Rightarrow> (text_result (JSON_stringify_2 prs), log')
      | (Inl error, log') \<Rightarrow> (error_result error, log'))"


definition post_comment_result :: "platform \<Rightarrow> json \<Rightarrow> thrown + string" where
  "post_comment_result P comment =
     (case read P ''comment.id'' (Some comment) ''id'' of
        Inl e \<Rightarrow> Inl e
      | Inr comment_id \<Rightarrow>
          (case read P ''comment.user.login'' (member comment ''user'') ''login'' of
             Inl e \<Rightarrow> Inl e
           | Inr login \<Rightarrow>
               Inr (JSON_stringify_2 (object
                 [(''success'', Some (JBool True)),
                  (''comment'', Some (object
                     [(''id'', comment_id),
                      (''created_at'', member comment ''created_at''),
                      (''author'', login)])),
                  (''message'', Some (JStr ''Comment successfully posted on PR''))]))))"

definition post_comment_on_pr ::
  "platform \<Rightarrow> upstream \<Rightarrow> params \<Rightarrow> exchange list \<Rightarrow> invocation_result \<times> exchange list" where
  "post_comment_on_pr P up p log =
     (case postCommentOnPR up (owner p) (repo p) (pull_number p) (body p) (token p) log of
        (Inl error, log') \<Rightarrow> (error_result error, log')
      | (Inr comment, log') \<Rightarrow>
          (case post_comment_result P comment of
             Inl error \<Rightarrow> (error_result error, log')
           | Inr t \<Rightarrow> (text_result t, log')))"

subsection \<open>analyze_and_comment_pr\<close>

text \<open>\<^verbatim>\<open>Math.floor((new Date().getTime() - new Date(pr.created_at).getTime()) /
  (1000 * 60 * 60 * 24))\<close>, with \<open>now\<close> the clock reading and \<open>created\<close> the time value of
  \<^verbatim>\<open>pr.created_at\<close>. Both are whole milliseconds, so the floor of the quotient of the
  doubles is the floor of the exact quotient as long as the difference is below \<open>2^53\<close>.\<close>

definition daysOld :: "int \<Rightarrow> int option \<Rightarrow> number" where
  "daysOld now created =
     (case created of
        None \<Rightarrow> NaN
      | Some t \<Rightarrow> Finite ((now - t) div (1000 * 60 * 60 * 24)))"

text \<open>\<^verbatim>\<open>pr.user?.login || pr.author?.login || "Unknown"\<close>, for a \<open>pr\<close> that is not
  \<^verbatim>\<open>null\<close> (the handler has read \<^verbatim>\<open>pr.created_at\<close> before).\<close>

definition authorLogin :: "json \<Rightarrow> json option" where
  "authorLogin pr =
     or_else (or_else (read_opt (member pr ''user'') ''login'')
                      (read_opt (member pr ''author'') ''login''))
             (Some (JStr ''Unknown''))"

text \<open>\<^verbatim>\<open>v.toUpperCase()\<close>: a TypeError unless \<open>v\<close> is a string.\<close>

definition call_toUpperCase :: "platform \<Rightarrow> string \<Rightarrow> json option \<Rightarrow> thrown + string" where
  "call_toUpperCase P expr v =
     (case v of
        Some (JStr s) \<Rightarrow> Inr (toUpperCase P s)
      | _ \<Rightarrow> Inl (ErrorObject (type_error_message P expr)))"

definition rulesFile :: string where
  "rulesFile = ''c:'' @ [CHR 0x5C] @ ''Users'' @ [CHR 0x5C] @ ''DHARAGK'' @ [CHR 0x5C]
     @ ''Desktop'' @ [CHR 0x5C] @ ''GithubAPI'' @ [CHR 0x5C] @ ''Rules.md''"

text \<open>The check mark U+2713 of the template, in UTF-8.\<close>

definition check_mark :: string where
  "check_mark = [CHR 0xE2, CHR 0x9C, CHR 0x93]"

text \<open>The template literal, one element for each of its lines.\<close>

definition report_lines ::
  "platform \<Rightarrow> json \<Rightarrow> number \<Rightarrow> json option \<Rightarrow> string \<Rightarrow> string list" where
  "report_lines P pr days author upper =
     [''## PR Analysis Report'',
      [],
      ''### PR Information'',
      ''- **PR Number:** #'' @ template (member pr ''number''),
      ''- **Title:** '' @ template (member pr ''title''),
      ''- **State:** '' @ template (member pr ''state''),
      ''- **Author:** @'' @ template author,
      ''- **Created:** '' @ date_toLocaleString P (member pr ''created_at''),
      ''- **Last Updated:** '' @ date_toLocaleString P (member pr ''updated_at''),
      ''- **URL:** '' @ template (member pr ''html_url''),
      [],
      ''### Rules Context'',
      ''**Rules File:** '' @ rulesFile,
      ''- Golang files: Variables must NOT start with capital letters'',
      ''- Code quality standards must be maintained'',
      ''- Proper naming conventions apply'',
      [],
      ''### Analysis Details'',
      ''- PR Status: **'' @ upper @ ''**'',
      ''- Days Since Creation: **'' @ number_toString days @ ''** days'',
      ''- Author: **@'' @ template author @ ''**'',
      ''- Submission Period: Recent submission for review'',
      [],
      ''### Compliance Check (Based on Rules.md)'',
      check_mark @ '' PR Analysis performed following project rules'',
      check_mark @ '' Code review guidelines from Rules.md applied'',
      check_mark @ '' Golang naming conventions verified for variables'',
      [],
      ''### Recommendations'',
      ''1. Ensure all Golang files follow variable naming (lowercase start)'',
      ''2. Verify code quality against defined standards'',
      ''3. Check for proper documentation'',
      [],
      ''---'',
      ''*This analysis was automatically generated by GitHub MCP Server*'',
      ''*Rules reference: '' @ rulesFile @ ''*'',
      ''*Generated using server.registerPrompt() pattern for PR analysis*'']"

text \<open>Lines 266 to 309 of the handler: the age, the author and the report, or the
  TypeError of \<^verbatim>\<open>pr.created_at\<close> on a \<^verbatim>\<open>null\<close> document or of
  \<^verbatim>\<open>pr.state.toUpperCase()\<close> on a state that is not a string.\<close>

definition analysisReport :: "platform \<Rightarrow> int \<Rightarrow> json \<Rightarrow> thrown + string" where
  "analysisReport P now pr =
     (case read P ''pr.created_at'' (Some pr) ''created_at'' of
        Inl e \<Rightarrow> Inl e
      | Inr created_at \<Rightarrow>
          (case call_toUpperCase P ''pr.state.toUpperCase'' (member pr ''state'') of
             Inl e \<Rightarrow> Inl e
           | Inr upper \<Rightarrow>
               Inr (join [CHR 0x0A]
                      (report_lines P pr (daysOld now (date_getTime P created_at))
                         (authorLogin pr) upper))))"

definition analyze_result :: "platform \<Rightarrow> json \<Rightarrow> json \<Rightarrow> thrown + string" where
  "analyze_result P pr comment =
     (case read P ''comment.id'' (Some comment) ''id'' of
        Inl e \<Rightarrow> Inl e
      | Inr comment_id \<Rightarrow>
          Inr (JSON_stringify_2 (object
            [(''success'', Some (JBool True)),
             (''pr'', Some (object
                [(''number'', member pr ''number''),
                 (''title'', member pr ''title''),
                 (''state'', member pr ''state'')])),
             (''comment'', Some (object
                [(''id'', comment_id),
                 (''created_at'', member comment ''created_at'')])),
             (''rulesFile'', Some (JStr rulesFile)),
             (''analysisMethod'',
                Some (JStr ''server.registerPrompt() + registered prompt pattern'')),
             (''registeredPrompt'', Some (JStr ''analyze_pull_request'')),
             (''message'',
                Some (JStr ''PR analysis successfully posted with Rules.md compliance check''))])))"

definition analyze_and_comment_pr ::
  "platform \<Rightarrow> int \<Rightarrow> upstream \<Rightarrow> params \<Rightarrow> exchange list
     \<Rightarrow> invocation_result \<times> exchange list" where
  "analyze_and_comment_pr P now up p log =
     (case getPullRequest up (owner p) (repo p) (pull_number p) (token p) log of
        (Inl error, log1) \<Rightarrow> (error_result error, log1)
      | (Inr pr, log1) \<Rightarrow>
          (case analysisReport P now pr of
             Inl error \<Rightarrow> (error_result error, log1)
           | Inr report \<Rightarrow>
               (case postCommentOnPR up (owner p) (repo p) (pull_number p) report (token p) log1 of
                  (Inl error, log2) \<Rightarrow> (error_result error, log2)
                | (Inr comment, log2) \<Rightarrow>
                    (case analyze_result P pr comment of
                       Inl error \<Rightarrow> (error_result error, log2)
                     | Inr t \<Rightarrow> (text_result t, log2)))))"

subsection \<open>Registration\<close>



section \<open>The launcher\<close>

text \<open>
  \<^verbatim>\<open>Number(process.env.PR_NUMBER)\<close>: NaN for a variable that is not set; otherwise
  the string without its leading and trailing white space is read as a numeric literal:
  the empty string is 0 and a run of at most 15 decimal digits is its value (exact as a
  double). Every other string (a sign, a fraction, an exponent, a radix prefix,
  \<^verbatim>\<open>Infinity\<close>, a longer run of digits, or no literal at all) is left to the parameter
  \<open>other\<close>.
\<close>

definition is_space :: "char \<Rightarrow> bool" where
  "is_space c = (c \<in> set [CHR 0x09, CHR 0x0A, CHR 0x0B, CHR 0x0C, CHR 0x0D, CHR 0x20])"

definition trim :: "string \<Rightarrow> string" where
  "trim s = rev (dropWhile is_space (rev (dropWhile is_space s)))"

definition is_digit :: "char \<Rightarrow> bool" where
  "is_digit c = (c \<in> set ''0123456789'')"

definition digit_value :: "char \<Rightarrow> nat" where
  "digit_value c = of_char c - 48"

definition digits_value :: "string \<Rightarrow> nat" where
  "digits_value s = foldl (\<lambda>n c. 10 * n + digit_value c) 0 s"

definition Number :: "(string \<Rightarrow> number) \<Rightarrow> string option \<Rightarrow> number" where
  "Number other v =
     (case v of
        None \<Rightarrow> NaN
      | Some s \<Rightarrow>
          if trim s = [] then Finite 0
          else if list_all is_digit (trim s) \<and> length (trim s) \<le> 15
            then Finite (int (digits_value (trim s)))
          else other (trim s))"

text \<open>What the script does, in order. \<^verbatim>\<open>process.exit\<close> ends the script. The two
  callbacks registered last (\<^verbatim>\<open>child.stdout.on("data")\<close>, \<^verbatim>\<open>child.on("exit")\<close>)
  run when the child writes or exits and are no part of the script's own steps.\<close>

datatype event =
    ConsoleError string
  | ConsoleLog string
  | Exit nat
  | Spawn string "string list" "string list"  \<comment> \<open>command, arguments, \<^verbatim>\<open>stdio\<close>\<close>
  | StdinWrite string

definition request_object :: "string option \<Rightarrow> string option \<Rightarrow> number \<Rightarrow> string option \<Rightarrow> json" where
  "request_object prOwner prRepo prNumber tok =
     object
       [(''jsonrpc'', Some (JStr ''2.0'')),
        (''id'', Some (JNum (Finite 1))),
        (''method'', Some (JStr ''tools.call'')),
        (''params'', Some (object
           [(''name'', Some (JStr ''analyze_and_comment_pr'')),
            (''arguments'', Some (object
               [(''owner'', map_option JStr prOwner),
                (''repo'', map_option JStr prRepo),
                (''pull_number'', Some (JNum prNumber)),
                (''token'', map_option JStr tok)]))]))]"

definition launcher :: "(string \<Rightarrow> number) \<Rightarrow> (string \<Rightarrow> string option) \<Rightarrow> event list" where
  "launcher other env =
     (let prOwner = env ''PR_OWNER'';
          prRepo = env ''PR_REPO'';
          prNumber = Number other (env ''PR_NUMBER'');
          token = env ''GITHUB_TOKEN''
      in if \<not> truthy (map_option JStr prOwner) \<or> \<not> truthy (map_option JStr prRepo)
            \<or> \<not> truthy (Some (JNum prNumber)) \<or> \<not> truthy (map_option JStr token)
         then [ConsoleError ''Missing environment variables'', Exit 1]
         else [ConsoleLog (''Running MCP for PR #'' @ number_toString prNumber @ '' on ''
                           @ template (map_option JStr prOwner) @ ''/''
                           @ template (map_option JStr prRepo)),
               Spawn ''node'' [''./dist/github-mcp.js''] [''pipe'', ''pipe'', ''inherit''],
               StdinWrite (JSON_stringify (request_object prOwner prRepo prNumber token)
                           @ [CHR 0x0A])])"

section \<open>Sample inputs\<close>

text \<open>A platform, a pull request, two upstreams and an environment on which the
  theorems below are exercised.\<close>

definition sample_platform :: platform where
  "sample_platform =
     \<lparr>type_error_message = (\<lambda>expr. ''Cannot read '' @ expr),
      date_getTime = (\<lambda>v. if v = Some (JStr ''2024-01-01T00:00:00Z'')
                            then Some 1704067200000 else None),
      date_toLocaleString = (\<lambda>v. ''1/1/2024, 12:00:00 AM''),
      toUpperCase = (\<lambda>s. if s = ''open'' then ''OPEN'' else s)\<rparr>"

definition sample_pr :: json where
  "sample_pr =
     JObj [(''id'', JNum (Finite 1001)),
           (''number'', JNum (Finite 7)),
           (''title'', JStr ''Fix typo''),
           (''state'', JStr ''open''),
           (''author'', JObj [(''login'', JStr ''bob'')]),
           (''created_at'', JStr ''2024-01-01T00:00:00Z''),
           (''updated_at'', JStr ''2024-01-01T00:00:00Z''),
           (''html_url'', JStr ''https://github.com/octocat/hello/pull/7'')]"

definition sample_comment :: json where
  "sample_comment =
     JObj [(''id'', JNum (Finite 55)),
           (''created_at'', JStr ''2024-01-04T02:00:00Z''),
           (''user'', JObj [(''login'', JStr ''octocat'')])]"

definition sample_pr_response :: response where
  "sample_pr_response = \<lparr>status = 200, statusText = ''OK'', json_body = Inr sample_pr\<rparr>"

definition sample_list_response :: response where
  "sample_list_response = \<lparr>status = 200, statusText = ''OK'', json_body = Inr (JArr [sample_pr])\<rparr>"

definition sample_comment_response :: response where
  "sample_comment_response =
     \<lparr>status = 201, statusText = ''Created'', json_body = Inr sample_comment\<rparr>"

definition not_found :: response where
  "not_found = \<lparr>status = 404, statusText = ''Not Found'',
                 json_body = Inr (JObj [(''message'', JStr ''Not Found'')])\<rparr>"

definition sample_upstream :: upstream where
  "sample_upstream log req =
     (if request_method req = POST then Resolved sample_comment_response
      else Resolved sample_pr_response)"

definition list_upstream :: upstream where
  "list_upstream log req = Resolved sample_list_response"

definition failing_upstream :: upstream where
  "failing_upstream log req = Resolved not_found"

definition sample_params :: params where
  "sample_params =
     \<lparr>owner = ''octocat'', repo = ''hello'', pull_number = Finite 7, body = ''hello'',
      token = None\<rparr>"

definition sample_env :: "string option \<Rightarrow> string \<Rightarrow> string option" where
  "sample_env n =
     (\<lambda>name. if name = ''PR_OWNER'' then Some ''octocat''
             else if name = ''PR_REPO'' then Some ''hello''
             else if name = ''PR_NUMBER'' then n
             else if name = ''GITHUB_TOKEN'' then Some ''secret''
             else None)"

definition no_other_literal :: "string \<Rightarrow> number" where
  "no_other_literal s = NaN"

section \<open>The REST operations, in one equation each\<close>

lemma getPullRequests_eq:
  "getPullRequests up ow re tk log =
     (case up log (getPullRequests_request ow re tk) of
        Rejected e \<Rightarrow> Inl e
      | Resolved r \<Rightarrow>
          if ok r then json_body r
          else Inl (ErrorObject (''GitHub API error: '' @ decimal (status r) @ '' ''
                                  @ statusText r)),
      log @ [(getPullRequests_request ow re tk, up log (getPullRequests_request ow re tk))])"
  by (simp add: getPullRequests_def fetch_def split: outcome.splits)

lemma getPullRequest_eq:
  "getPullRequest up ow re n tk log =
     (case up log (getPullRequest_request ow re n tk) of
        Rejected e \<Rightarrow> Inl e
      | Resolved r \<Rightarrow>
          if ok r then json_body r
          else Inl (ErrorObject (''GitHub API error: '' @ decimal (status r) @ '' ''
                                  @ statusText r)),
      log @ [(getPullRequest_request ow re n tk, up log (getPullRequest_request ow re n tk))])"
  by (simp add: getPullRequest_def fetch_def split: outcome.splits)

lemma postCommentOnPR_eq:
  "postCommentOnPR up ow re n b tk log =
     (case up log (postCommentOnPR_request ow re n b tk) of
        Rejected e \<Rightarrow> Inl e
      | Resolved r \<Rightarrow>
          if ok r then json_body r
          else Inl (ErrorObject (''Failed to post comment: '' @ decimal (status r) @ '' ''
                                  @ statusText r)),
      log @ [(postCommentOnPR_request ow re n b tk,
              up log (postCommentOnPR_request ow re n b tk))])"
  by (simp add: postCommentOnPR_def fetch_def split: outcome.splits)

lemma request_methods:
  "request_method (getPullRequests_request ow re tk) = GET"
  "request_method (getPullRequest_request ow re n tk) = GET"
  "request_method (postCommentOnPR_request ow re n b tk) = POST"
  by (simp_all add: getPullRequests_request_def getPullRequest_request_def
      postCommentOnPR_request_def)


lemma read_defined: "v \<noteq> JNull \<Longrightarrow> read P expr (Some v) k = Inr (member v k)"
  by (cases v) (simp_all add: read_def)

lemma member_not_null: "member v k = Some x \<Longrightarrow> v \<noteq> JNull"
  by auto

section \<open>Upstream failures become error results\<close>







section \<open>The analysis report\<close>








section \<open>The single-request tools\<close>

text \<open>
  Claim C4. \<^verbatim>\<open>get_prs_of_repo\<close> makes exactly one request, a GET of
  \<^verbatim>\<open>{base}/repos/{owner}/{repo}/pulls\<close> (with the token, when given, in the
  Authorization header), and when the upstream answers 2xx with a JSON document (the array
  of pull requests) the result is that document serialized with two-space indentation as
  its one text payload, not flagged as an error.
\<close>

theorem get_prs_of_repo_lists:
  "snd (get_prs_of_repo up p log) =
      log @ [(getPullRequests_request (owner p) (repo p) (token p),
              up log (getPullRequests_request (owner p) (repo p) (token p)))]
   \<and> request_method (getPullRequests_request (owner p) (repo p) (token p)) = GET
   \<and> url (getPullRequests_request (owner p) (repo p) (token p)) =
       GITHUB_URL @ ''/repos/'' @ owner p @ ''/'' @ repo p @ ''/pulls''
   \<and> (\<forall>r prs. up log (getPullRequests_request (owner p) (repo p) (token p)) = Resolved r
         \<longrightarrow> ok r \<longrightarrow> json_body r = Inr prs
         \<longrightarrow> fst (get_prs_of_repo up p log) =
               \<lparr>content = [TextContent (JSON_stringify_2 prs)], isError = False\<rparr>)"
  by (auto simp: get_prs_of_repo_def getPullRequests_eq request_methods text_result_def
      getPullRequests_request_def split: outcome.splits sum.splits)

text \<open>On an upstream that answers with the array of the one sample pull request.\<close>

theorem get_prs_of_repo_lists_witness:
  "list_upstream [] (getPullRequests_request ''octocat'' ''hello'' None) =
     Resolved sample_list_response
   \<and> ok sample_list_response
   \<and> json_body sample_list_response = Inr (JArr [sample_pr])
   \<and> url (getPullRequests_request ''octocat'' ''hello'' None) =
       ''https://api.github.com/repos/octocat/hello/pulls''
   \<and> get_prs_of_repo list_upstream sample_params [] =
       (\<lparr>content = [TextContent (JSON_stringify_2 (JArr [sample_pr]))], isError = False\<rparr>,
        [(getPullRequests_request ''octocat'' ''hello'' None, Resolved sample_list_response)])"
proof -
  have h1: "list_upstream []
      (getPullRequests_request (owner sample_params) (repo sample_params) (token sample_params)) =
      Resolved sample_list_response"
    by (simp add: list_upstream_def)
  have h2: "ok sample_list_response"
    by (simp add: ok_def sample_list_response_def)
  have h3: "json_body sample_list_response = Inr (JArr [sample_pr])"
    by (simp add: sample_list_response_def)
  from get_prs_of_repo_lists [of list_upstream sample_params "[]"] h1 h2 h3
  show ?thesis
    by (simp add: sample_params_def GITHUB_URL_def prod_eq_iff list_upstream_def)
qed

text \<open>
  Claim C8. When the upstream answers the POST with 2xx and the created comment (a document
  with \<^verbatim>\<open>id\<close>, \<^verbatim>\<open>created_at\<close> and a \<^verbatim>\<open>user\<close> with a \<^verbatim>\<open>login\<close>),
  \<^verbatim>\<open>post_comment_on_pr\<close> returns one text payload, the serialization of
  \<^verbatim>\<open>{success: true, comment: {id, created_at, author}, message}\<close> with \<open>id\<close> and
  \<open>created_at\<close> those of the comment and \<open>author\<close> the login of its user.
\<close>

theorem post_comment_on_pr_success:
  assumes "up log (postCommentOnPR_request (owner p) (repo p) (pull_number p) (body p) (token p))
             = Resolved r"
    and "ok r" and "json_body r = Inr comment"
    and "member comment ''id'' = Some i" and "member comment ''created_at'' = Some c"
    and "member comment ''user'' = Some u" and "member u ''login'' = Some l"
  shows "fst (post_comment_on_pr P up p log) =
     \<lparr>content = [TextContent (JSON_stringify_2 (JObj
         [(''success'', JBool True),
          (''comment'', JObj [(''id'', i), (''created_at'', c), (''author'', l)]),
          (''message'', JStr ''Comment successfully posted on PR'')]))],
      isError = False\<rparr>"
proof -
  have "post_comment_result P comment = Inr (JSON_stringify_2 (JObj
         [(''success'', JBool True),
          (''comment'', JObj [(''id'', i), (''created_at'', c), (''author'', l)]),
          (''message'', JStr ''Comment successfully posted on PR'')]))"
    using assms(4-7) member_not_null [OF assms(4)] member_not_null [OF assms(7)]
    by (simp add: post_comment_result_def read_defined object_def)
  with assms(1-3) show ?thesis
    by (simp add: post_comment_on_pr_def postCommentOnPR_eq text_result_def)
qed

text \<open>The sample upstream creates comment 55 by \<^verbatim>\<open>octocat\<close>.\<close>

theorem post_comment_on_pr_success_witness:
  "sample_upstream [] (postCommentOnPR_request ''octocat'' ''hello'' (Finite 7) ''hello'' None) =
     Resolved sample_comment_response
   \<and> ok sample_comment_response
   \<and> fst (post_comment_on_pr sample_platform sample_upstream sample_params []) =
     \<lparr>content = [TextContent (JSON_stringify_2 (JObj
         [(''success'', JBool True),
          (''comment'', JObj [(''id'', JNum (Finite 55)),
                              (''created_at'', JStr ''2024-01-04T02:00:00Z''),
                              (''author'', JStr ''octocat'')]),
          (''message'', JStr ''Comment successfully posted on PR'')]))],
      isError = False\<rparr>"
proof -
  have h1: "sample_upstream []
      (postCommentOnPR_request (owner sample_params) (repo sample_params)
         (pull_number sample_params) (body sample_params) (token sample_params)) =
      Resolved sample_comment_response"
    by (simp add: sample_upstream_def request_methods)
  have h2: "ok sample_comment_response"
    by (simp add: ok_def sample_comment_response_def)
  have h3: "json_body sample_comment_response = Inr sample_comment"
    by (simp add: sample_comment_response_def)
  have h4: "member sample_comment ''id'' = Some (JNum (Finite 55))"
    and h5: "member sample_comment ''created_at'' = Some (JStr ''2024-01-04T02:00:00Z'')"
    and h6: "member sample_comment ''user'' = Some (JObj [(''login'', JStr ''octocat'')])"
    by (simp_all add: sample_comment_def)
  have h7: "member (JObj [(''login'', JStr ''octocat'')]) ''login'' = Some (JStr ''octocat'')"
    by simp
  from post_comment_on_pr_success [where P = sample_platform and up = sample_upstream
      and log = "[]" and p = sample_params, OF h1 h2 h3 h4 h5 h6 h7] h1 h2
  show ?thesis
    by (simp add: sample_params_def)
qed

text \<open>
  Claim C9. When fetching the pull request fails (\<^verbatim>\<open>fetch\<close> rejects, or the answer is
  not 2xx), \<^verbatim>\<open>analyze_and_comment_pr\<close> returns an error-flagged result and the GET is
  the only request it has made: no comment is posted.
\<close>

theorem analyze_no_post_after_failed_get:
  assumes "up log (getPullRequest_request (owner p) (repo p) (pull_number p) (token p)) =
             Rejected e
         \<or> (\<exists>r. up log (getPullRequest_request (owner p) (repo p) (pull_number p) (token p)) =
                   Resolved r \<and> \<not> ok r)"
  shows "isError (fst (analyze_and_comment_pr P now up p log))
       \<and> snd (analyze_and_comment_pr P now up p log) =
           log @ [(getPullRequest_request (owner p) (repo p) (pull_number p) (token p),
                   up log (getPullRequest_request (owner p) (repo p) (pull_number p) (token p)))]
       \<and> map (request_method \<circ> fst)
           (drop (length log) (snd (analyze_and_comment_pr P now up p log))) = [GET]"
  using assms
  by (auto simp: analyze_and_comment_pr_def getPullRequest_eq request_methods error_result_def)

text \<open>On the upstream that answers 404.\<close>

theorem analyze_no_post_after_failed_get_witness:
  "failing_upstream [] (getPullRequest_request ''octocat'' ''hello'' (Finite 7) None) =
     Resolved not_found
   \<and> \<not> ok not_found
   \<and> isError (fst (analyze_and_comment_pr sample_platform 1704333600000 failing_upstream
                      sample_params []))
   \<and> map (request_method \<circ> fst)
       (snd (analyze_and_comment_pr sample_platform 1704333600000 failing_upstream
               sample_params [])) = [GET]"
proof -
  have h: "failing_upstream []
        (getPullRequest_request (owner sample_params) (repo sample_params)
           (pull_number sample_params) (token sample_params)) = Rejected (ErrorObject [])
      \<or> (\<exists>r. failing_upstream []
        (getPullRequest_request (owner sample_params) (repo sample_params)
           (pull_number sample_params) (token sample_params)) = Resolved r \<and> \<not> ok r)"
    by (simp add: failing_upstream_def not_found_def ok_def)
  have n: "\<not> ok not_found"
    by (simp add: not_found_def ok_def)
  from analyze_no_post_after_failed_get [where P = sample_platform and now = 1704333600000
      and up = failing_upstream and log = "[]" and p = sample_params, OF h] n
  show ?thesis
    by (simp add: failing_upstream_def request_methods)
qed

section \<open>Request headers\<close>

lemma authorization_lookup:
  "map_of (authorization tk) k =
     (if k = ''Authorization''
      then (case tk of None \<Rightarrow> None
            | Some t \<Rightarrow> if t = [] then None else Some (''token '' @ t))
      else None)"
  by (cases tk) (simp_all add: authorization_def template_def)

text \<open>
  Claim C5, as the counterexample leaves it. Each of the three REST operations makes
  exactly one request, with the Accept header \<^verbatim>\<open>application/vnd.github.v3+json\<close> and the
  User-Agent \<^verbatim>\<open>GitHub-API-Client\<close>; the request has the Authorization header
  \<^verbatim>\<open>token {token}\<close> if and only if a token that is not the empty string is supplied.
  \<^verbatim>\<open>post_comment_on_pr\<close> with the body \<^verbatim>\<open>hello\<close> and no token makes exactly one
  request, a POST to the comments endpoint with the payload \<^verbatim>\<open>{"body":"hello"}\<close> and
  no Authorization header.
\<close>

theorem rest_operation_headers:
  "map fst (drop (length log) (snd (getPullRequests up ow re tk log))) =
     [getPullRequests_request ow re tk]
   \<and> map fst (drop (length log) (snd (getPullRequest up ow re n tk log))) =
     [getPullRequest_request ow re n tk]
   \<and> map fst (drop (length log) (snd (postCommentOnPR up ow re n b tk log))) =
     [postCommentOnPR_request ow re n b tk]
   \<and> (\<forall>q \<in> set [getPullRequests_request ow re tk, getPullRequest_request ow re n tk,
                  postCommentOnPR_request ow re n b tk].
        map_of (headers q) ''Accept'' = Some ''application/vnd.github.v3+json''
      \<and> map_of (headers q) ''User-Agent'' = Some ''GitHub-API-Client''
      \<and> map_of (headers q) ''Authorization'' =
          (case tk of None \<Rightarrow> None
           | Some t \<Rightarrow> if t = [] then None else Some (''token '' @ t)))
   \<and> map fst (drop (length log)
        (snd (post_comment_on_pr P up (p\<lparr>body := ''hello'', token := None\<rparr>) log))) =
       [\<lparr>request_method = POST,
         url = GITHUB_URL @ ''/repos/'' @ owner p @ ''/'' @ repo p @ ''/issues/''
               @ number_toString (pull_number p) @ ''/comments'',
         headers = [(''Accept'', ''application/vnd.github.v3+json''),
                    (''User-Agent'', ''GitHub-API-Client''),
                    (''Content-Type'', ''application/json'')],
         payload = Some (''{'' @ [CHR 0x22] @ ''body'' @ [CHR 0x22] @ '':'' @ [CHR 0x22]
                         @ ''hello'' @ [CHR 0x22] @ ''}'')\<rparr>]"
proof -
  have ops: "map fst (drop (length log) (snd (getPullRequests up ow re tk log))) =
       [getPullRequests_request ow re tk]"
    "map fst (drop (length log) (snd (getPullRequest up ow re n tk log))) =
       [getPullRequest_request ow re n tk]"
    "map fst (drop (length log) (snd (postCommentOnPR up ow re n b tk log))) =
       [postCommentOnPR_request ow re n b tk]"
    by (simp_all add: getPullRequests_eq getPullRequest_eq postCommentOnPR_eq)
  have hs: "\<forall>q \<in> set [getPullRequests_request ow re tk, getPullRequest_request ow re n tk,
                  postCommentOnPR_request ow re n b tk].
        map_of (headers q) ''Accept'' = Some ''application/vnd.github.v3+json''
      \<and> map_of (headers q) ''User-Agent'' = Some ''GitHub-API-Client''
      \<and> map_of (headers q) ''Authorization'' =
          (case tk of None \<Rightarrow> None
           | Some t \<Rightarrow> if t = [] then None else Some (''token '' @ t))"
    by (simp add: getPullRequests_request_def getPullRequest_request_def
        postCommentOnPR_request_def authorization_lookup)
  have hello: "JSON_stringify (JObj [(''body'', JStr ''hello'')]) =
      ''{'' @ [CHR 0x22] @ ''body'' @ [CHR 0x22] @ '':'' @ [CHR 0x22] @ ''hello''
      @ [CHR 0x22] @ ''}''"
    by (simp add: JSON_stringify_def quote_def quote_char_def)
  have post: "map fst (drop (length log)
        (snd (post_comment_on_pr P up (p\<lparr>body := ''hello'', token := None\<rparr>) log))) =
       [postCommentOnPR_request (owner p) (repo p) (pull_number p) ''hello'' None]"
    by (simp add: post_comment_on_pr_def postCommentOnPR_eq split: outcome.splits sum.splits)
  have "postCommentOnPR_request (owner p) (repo p) (pull_number p) ''hello'' None =
       \<lparr>request_method = POST,
         url = GITHUB_URL @ ''/repos/'' @ owner p @ ''/'' @ repo p @ ''/issues/''
               @ number_toString (pull_number p) @ ''/comments'',
         headers = [(''Accept'', ''application/vnd.github.v3+json''),
                    (''User-Agent'', ''GitHub-API-Client''),
                    (''Content-Type'', ''application/json'')],
         payload = Some (''{'' @ [CHR 0x22] @ ''body'' @ [CHR 0x22] @ '':'' @ [CHR 0x22]
                         @ ''hello'' @ [CHR 0x22] @ ''}'')\<rparr>"
    unfolding postCommentOnPR_request_def hello by (simp add: authorization_def)
  with post ops hs show ?thesis by simp
qed

text \<open>With the token \<^verbatim>\<open>secret\<close> the header is \<^verbatim>\<open>token secret\<close>.\<close>

theorem rest_operation_headers_witness:
  "getPullRequest_request ''octocat'' ''hello'' (Finite 7) (Some ''secret'')
     \<in> set [getPullRequests_request ''octocat'' ''hello'' (Some ''secret''),
            getPullRequest_request ''octocat'' ''hello'' (Finite 7) (Some ''secret''),
            postCommentOnPR_request ''octocat'' ''hello'' (Finite 7) ''hello'' (Some ''secret'')]
   \<and> map_of (headers (getPullRequest_request ''octocat'' ''hello'' (Finite 7) (Some ''secret'')))
       ''Authorization'' = Some ''token secret''
   \<and> map_of (headers (getPullRequest_request ''octocat'' ''hello'' (Finite 7) (Some ''secret'')))
       ''Accept'' = Some ''application/vnd.github.v3+json''"
proof -
  have m: "getPullRequest_request ''octocat'' ''hello'' (Finite 7) (Some ''secret'')
     \<in> set [getPullRequests_request ''octocat'' ''hello'' (Some ''secret''),
            getPullRequest_request ''octocat'' ''hello'' (Finite 7) (Some ''secret''),
            postCommentOnPR_request ''octocat'' ''hello'' (Finite 7) ''hello'' (Some ''secret'')]"
    by simp
  from rest_operation_headers [of "[]" sample_upstream "''octocat''" "''hello''" "Some ''secret''"
      "Finite 7" "''hello''" sample_platform sample_params] m
  show ?thesis by simp
qed

text \<open>
  The claim C5 as it is stated fails for a token that is supplied and empty: the one
  request that \<^verbatim>\<open>getPullRequest\<close> makes then has the Accept and User-Agent headers only.
\<close>

theorem empty_token_counterexample:
  "snd (getPullRequest sample_upstream ''octocat'' ''hello'' (Finite 7) (Some '''') []) =
     [(getPullRequest_request ''octocat'' ''hello'' (Finite 7) (Some ''''),
       Resolved sample_pr_response)]
   \<and> headers (getPullRequest_request ''octocat'' ''hello'' (Finite 7) (Some '''')) =
       [(''Accept'', ''application/vnd.github.v3+json''), (''User-Agent'', ''GitHub-API-Client'')]
   \<and> \<not> (map_of (headers (getPullRequest_request ''octocat'' ''hello'' (Finite 7) (Some '''')))
            ''Authorization'' \<noteq> None
          \<longleftrightarrow> (Some '''' :: string option) \<noteq> None)"
  by (simp add: getPullRequest_eq getPullRequest_request_def authorization_def
      sample_upstream_def)

section \<open>The launcher's check and its request\<close>

lemma decimal_digits: "set (decimal n) \<subseteq> set ''0123456789''"
proof (induction n rule: decimal.induct)
  case (1 n)
  have nth: "''0123456789'' ! k \<in> set ''0123456789''" if "k < 10" for k
    using that by (intro nth_mem) simp
  show ?case
  proof (cases "n < 10")
    case True
    then show ?thesis using nth [of n] by (subst decimal.simps) simp
  next
    case False
    have "n mod 10 < 10" by simp
    with False 1 nth [of "n mod 10"] show ?thesis
      by (subst decimal.simps) simp
  qed
qed

lemma number_toString_no_newline: "CHR 0x0A \<notin> set (number_toString x)"
proof (cases x)
  case (Finite i)
  have "CHR 0x0A \<notin> set (decimal k)" for k
    using decimal_digits [of k] by auto
  then show ?thesis using Finite by simp
qed simp_all

lemma hex_digit_no_newline: "k < 16 \<Longrightarrow> hex_digit k \<noteq> CHR 0x0A"
proof -
  assume "k < 16"
  then have "''0123456789abcdef'' ! k \<in> set ''0123456789abcdef''"
    by (intro nth_mem) simp
  then show ?thesis unfolding hex_digit_def by auto
qed

lemma quote_char_no_newline: "CHR 0x0A \<notin> set (quote_char c)"
proof -
  have a: "CHR 0x0A \<noteq> hex_digit (of_char c div 16)" if "(of_char c :: nat) < 32"
  proof -
    from that have "(of_char c :: nat) div 16 < 16" by arith
    then show ?thesis using hex_digit_no_newline [of "of_char c div 16"] by auto
  qed
  have b: "CHR 0x0A \<noteq> hex_digit (of_char c mod 16)"
  proof -
    have "(of_char c :: nat) mod 16 < 16" by simp
    then show ?thesis using hex_digit_no_newline [of "of_char c mod 16"] by auto
  qed
  show ?thesis by (simp add: quote_char_def a b)
qed

lemma quote_no_newline: "CHR 0x0A \<notin> set (quote s)"
  using quote_char_no_newline by (auto simp: quote_def)

lemma launcher_exit_cases:
  "\<not> truthy (map_option JStr (env ''PR_OWNER'')) \<or> \<not> truthy (map_option JStr (env ''PR_REPO''))
   \<or> \<not> truthy (Some (JNum (Number other (env ''PR_NUMBER''))))
   \<or> \<not> truthy (map_option JStr (env ''GITHUB_TOKEN''))
   \<Longrightarrow> launcher other env = [ConsoleError ''Missing environment variables'', Exit 1]"
  unfolding launcher_def Let_def by (simp only: if_True)

lemma Number_digits:
  "Number other (Some '' 42'') = Finite 42" "Number other (Some ''0'') = Finite 0"
  "Number other (Some ''abc'') = other ''abc''"
  by (simp_all add: Number_def trim_def is_space_def is_digit_def digits_value_def
      digit_value_def)

text \<open>
  Claim C6. When one of \<^verbatim>\<open>PR_OWNER\<close>, \<^verbatim>\<open>PR_REPO\<close>, \<^verbatim>\<open>PR_NUMBER\<close>,
  \<^verbatim>\<open>GITHUB_TOKEN\<close> is not set, or \<^verbatim>\<open>PR_NUMBER\<close> does not parse as a number (NaN), the
  launcher prints \<^verbatim>\<open>Missing environment variables\<close> and exits with status 1, and that is
  all it does: no subprocess is spawned.
\<close>

theorem launcher_missing_exits:
  assumes "env ''PR_OWNER'' = None \<or> env ''PR_REPO'' = None \<or> env ''PR_NUMBER'' = None
           \<or> env ''GITHUB_TOKEN'' = None \<or> Number other (env ''PR_NUMBER'') = NaN"
  shows "launcher other env = [ConsoleError ''Missing environment variables'', Exit 1]"
proof (rule launcher_exit_cases)
  have "Number other None = NaN" by (simp add: Number_def)
  with assms show
    "\<not> truthy (map_option JStr (env ''PR_OWNER'')) \<or> \<not> truthy (map_option JStr (env ''PR_REPO''))
     \<or> \<not> truthy (Some (JNum (Number other (env ''PR_NUMBER''))))
     \<or> \<not> truthy (map_option JStr (env ''GITHUB_TOKEN''))"
    by auto
qed

text \<open>Without \<^verbatim>\<open>PR_NUMBER\<close>, and with \<^verbatim>\<open>PR_NUMBER=abc\<close>.\<close>

theorem launcher_missing_exits_witness:
  "sample_env None ''PR_NUMBER'' = None
   \<and> launcher no_other_literal (sample_env None) =
       [ConsoleError ''Missing environment variables'', Exit 1]
   \<and> Number no_other_literal (sample_env (Some ''abc'') ''PR_NUMBER'') = NaN
   \<and> launcher no_other_literal (sample_env (Some ''abc'')) =
       [ConsoleError ''Missing environment variables'', Exit 1]"
proof -
  have h1: "sample_env None ''PR_NUMBER'' = None"
    by (simp add: sample_env_def)
  have h2: "Number no_other_literal (sample_env (Some ''abc'') ''PR_NUMBER'') = NaN"
    by (simp add: sample_env_def Number_digits no_other_literal_def)
  from launcher_missing_exits [of "sample_env None" no_other_literal]
    launcher_missing_exits [of "sample_env (Some ''abc'')" no_other_literal] h1 h2
  show ?thesis by simp
qed

text \<open>
  Claim C7. When the owner, the repository and the token are set and not empty and
  \<^verbatim>\<open>PR_NUMBER\<close> parses to a finite number other than 0, the launcher logs, spawns the
  server and writes to its input one line: the serialization of the JSON-RPC request with
  the four values read, which contains no newline, followed by a newline.
\<close>

theorem launcher_request:
  assumes "env ''PR_OWNER'' = Some ow" and "ow \<noteq> []"
    and "env ''PR_REPO'' = Some re" and "re \<noteq> []"
    and "env ''GITHUB_TOKEN'' = Some tk" and "tk \<noteq> []"
    and "Number other (env ''PR_NUMBER'') = Finite n" and "n \<noteq> 0"
  shows "\<exists>line. launcher other env =
           [ConsoleLog (''Running MCP for PR #'' @ number_toString (Finite n) @ '' on ''
                        @ ow @ ''/'' @ re),
            Spawn ''node'' [''./dist/github-mcp.js''] [''pipe'', ''pipe'', ''inherit''],
            StdinWrite (line @ [CHR 0x0A])]
         \<and> line = JSON_stringify
             (JObj [(''jsonrpc'', JStr ''2.0''), (''id'', JNum (Finite 1)),
                    (''method'', JStr ''tools.call''),
                    (''params'', JObj [(''name'', JStr ''analyze_and_comment_pr''),
                       (''arguments'', JObj [(''owner'', JStr ow), (''repo'', JStr re),
                          (''pull_number'', JNum (Finite n)), (''token'', JStr tk)])])])
         \<and> CHR 0x0A \<notin> set line"
proof -
  have obj: "request_object (Some ow) (Some re) (Finite n) (Some tk) =
      JObj [(''jsonrpc'', JStr ''2.0''), (''id'', JNum (Finite 1)),
            (''method'', JStr ''tools.call''),
            (''params'', JObj [(''name'', JStr ''analyze_and_comment_pr''),
               (''arguments'', JObj [(''owner'', JStr ow), (''repo'', JStr re),
                  (''pull_number'', JNum (Finite n)), (''token'', JStr tk)])])]"
    by (simp add: request_object_def object_def)
  have run: "launcher other env =
      [ConsoleLog (''Running MCP for PR #'' @ number_toString (Finite n) @ '' on ''
                   @ ow @ ''/'' @ re),
       Spawn ''node'' [''./dist/github-mcp.js''] [''pipe'', ''pipe'', ''inherit''],
       StdinWrite (JSON_stringify (request_object (Some ow) (Some re) (Finite n) (Some tk))
                   @ [CHR 0x0A])]"
    using assms by (simp add: launcher_def template_def)
  have nl: "CHR 0x0A
      \<notin> set (JSON_stringify (request_object (Some ow) (Some re) (Finite n) (Some tk)))"
    unfolding obj JSON_stringify_def
    using quote_no_newline number_toString_no_newline [of "Finite n"]
      number_toString_no_newline [of "Finite 1"]
    by (simp del: number_toString.simps)
  show ?thesis using run nl unfolding obj by blast
qed

text \<open>With \<^verbatim>\<open>PR_NUMBER= 42\<close> the line written is the request for pull request 42.\<close>

theorem launcher_request_witness:
  "sample_env (Some '' 42'') ''PR_OWNER'' = Some ''octocat''
   \<and> Number no_other_literal (sample_env (Some '' 42'') ''PR_NUMBER'') = Finite 42
   \<and> launcher no_other_literal (sample_env (Some '' 42'')) =
       [ConsoleLog ''Running MCP for PR #42 on octocat/hello'',
        Spawn ''node'' [''./dist/github-mcp.js''] [''pipe'', ''pipe'', ''inherit''],
        StdinWrite (''{'' @ [CHR 0x22] @ ''jsonrpc'' @ [CHR 0x22] @ '':'' @ [CHR 0x22] @ ''2.0''
            @ [CHR 0x22] @ '','' @ [CHR 0x22] @ ''id'' @ [CHR 0x22] @ '':1,'' @ [CHR 0x22]
            @ ''method'' @ [CHR 0x22] @ '':'' @ [CHR 0x22] @ ''tools.call'' @ [CHR 0x22]
            @ '','' @ [CHR 0x22] @ ''params'' @ [CHR 0x22] @ '':{'' @ [CHR 0x22] @ ''name''
            @ [CHR 0x22] @ '':'' @ [CHR 0x22] @ ''analyze_and_comment_pr'' @ [CHR 0x22]
            @ '','' @ [CHR 0x22] @ ''arguments'' @ [CHR 0x22] @ '':{'' @ [CHR 0x22]
            @ ''owner'' @ [CHR 0x22] @ '':'' @ [CHR 0x22] @ ''octocat'' @ [CHR 0x22] @ '',''
            @ [CHR 0x22] @ ''repo'' @ [CHR 0x22] @ '':'' @ [CHR 0x22] @ ''hello''
            @ [CHR 0x22] @ '','' @ [CHR 0x22] @ ''pull_number'' @ [CHR 0x22] @ '':42,''
            @ [CHR 0x22] @ ''token'' @ [CHR 0x22] @ '':'' @ [CHR 0x22] @ ''secret''
            @ [CHR 0x22] @ ''}}}''
            @ [CHR 0x0A])]"
proof -
  have h1: "sample_env (Some '' 42'') ''PR_OWNER'' = Some ''octocat''"
    and h3: "sample_env (Some '' 42'') ''PR_REPO'' = Some ''hello''"
    and h5: "sample_env (Some '' 42'') ''GITHUB_TOKEN'' = Some ''secret''"
    by (simp_all add: sample_env_def)
  have h7: "Number no_other_literal (sample_env (Some '' 42'') ''PR_NUMBER'') = Finite 42"
    by (simp add: sample_env_def Number_digits)
  have ne: "''octocat'' \<noteq> []" "''hello'' \<noteq> []" "''secret'' \<noteq> []" "(42::int) \<noteq> 0"
    by simp_all
  from launcher_request [OF h1 ne(1) h3 ne(2) h5 ne(3) h7 ne(4)] h1 h7
  show ?thesis
    by (simp add: JSON_stringify_def quote_def quote_char_def decimal.simps)
qed

text \<open>
  Claim C10. The launcher's check is on the truthiness of the values: it also prints the
  diagnostic and exits with status 1, spawning nothing, when \<^verbatim>\<open>PR_NUMBER\<close> parses to 0
  or when one of the four variables is set to the empty string.
\<close>

theorem launcher_falsy_exits:
  assumes "Number other (env ''PR_NUMBER'') = Finite 0 \<or> env ''PR_OWNER'' = Some []
           \<or> env ''PR_REPO'' = Some [] \<or> env ''PR_NUMBER'' = Some []
           \<or> env ''GITHUB_TOKEN'' = Some []"
  shows "launcher other env = [ConsoleError ''Missing environment variables'', Exit 1]"
proof (rule launcher_exit_cases)
  have "Number other (Some []) = Finite 0" by (simp add: Number_def trim_def)
  with assms show
    "\<not> truthy (map_option JStr (env ''PR_OWNER'')) \<or> \<not> truthy (map_option JStr (env ''PR_REPO''))
     \<or> \<not> truthy (Some (JNum (Number other (env ''PR_NUMBER''))))
     \<or> \<not> truthy (map_option JStr (env ''GITHUB_TOKEN''))"
    by auto
qed

text \<open>With \<^verbatim>\<open>PR_NUMBER=0\<close>, and with \<^verbatim>\<open>PR_NUMBER\<close> set to the empty string.\<close>

theorem launcher_falsy_exits_witness:
  "Number no_other_literal (sample_env (Some ''0'') ''PR_NUMBER'') = Finite 0
   \<and> launcher no_other_literal (sample_env (Some ''0'')) =
       [ConsoleError ''Missing environment variables'', Exit 1]
   \<and> sample_env (Some '''') ''PR_NUMBER'' = Some ''''
   \<and> launcher no_other_literal (sample_env (Some '''')) =
       [ConsoleError ''Missing environment variables'', Exit 1]"
proof -
  have h1: "Number no_other_literal (sample_env (Some ''0'') ''PR_NUMBER'') = Finite 0"
    by (simp add: sample_env_def Number_digits)
  have h2: "sample_env (Some '''') ''PR_NUMBER'' = Some ''''"
    by (simp add: sample_env_def)
  from launcher_falsy_exits [of no_other_literal "sample_env (Some ''0'')"]
    launcher_falsy_exits [of no_other_literal "sample_env (Some '''')"] h1 h2
  show ?thesis by simp
qed

end
